theory Spec2Isabelle
  imports Main "HOL-Library.Monad_Syntax"
begin

section \<open>The configs commands of the command-line client\<close>

text \<open>
  The repository holds two revisions of the file that defines the \<open>configs\<close> command group:
  \<^item> \<open>src/unnamed/part_000\<close>, the revision with audit logs, the confirmation prompt of
    \<open>delete\<close> and the derivation of the environment in \<open>create\<close>;
  \<^item> \<open>src/cmd/configs.go\<close>, the revision that renders its own output
    (\<open>printConfigInfo\<close>, \<open>printConfigsInfo\<close>) and marks \<open>--environment\<close> as required.
  Where both define a command of the same name, the definitions taken from
  \<open>src/cmd/configs.go\<close> carry the suffix \<open>0\<close>.

  A command body is a Go function \<open>func(cmd, args)\<close> that reads flags, calls the API package,
  and prints. It is modelled as a function from the things it reads to the list of effects it
  performs, in order, together with the way it ends.
\<close>

subsection \<open>Data\<close>

text \<open>A Go \<open>error\<close> value is identified with its text.\<close>

type_synonym go_error = string

text \<open>A non-nil \<open>api.Error\<close>: the wrapped error and the message.\<close>

record api_Error =
  Unwrap :: go_error
  Message :: string

text \<open>
  \<open>api.ConfigInfo\<close>: the fields that \<open>printConfigInfo\<close> and \<open>printConfigsInfo\<close> read
  (\<open>src/cmd/configs.go\<close>, lines 182 and 198).
\<close>

record ConfigInfo =
  Name :: string
  MissingVariables :: "string list"
  DeployedAt :: string
  CreatedAt :: string
  Environment :: string
  Project :: string

text \<open>
  The settings bundle returned by \<open>configuration.LocalConfig(cmd)\<close>; the field \<open>X_Value\<close>
  stands for \<open>localConfig.X.Value\<close>. \<open>Key\<close> is read by \<open>src/cmd/configs.go\<close> only, \<open>APIHost\<close>,
  \<open>VerifyTLS\<close> and \<open>Token\<close> by \<open>src/unnamed/part_000\<close> only.
\<close>

record local_config =
  APIHost_Value :: string
  VerifyTLS_Value :: string
  Token_Value :: string
  Key_Value :: string
  Project_Value :: string
  Config_Value :: string

text \<open>
  The flags of a command, as the command body reads them: \<open>cmd.Flag("name").Value.String()\<close> is
  \<open>flag_name\<close>, \<open>utils.GetBoolFlag(cmd, "silent")\<close> is \<open>flag_silent\<close>, and so on. A flag that
  was not given on the command line has the default registered in \<open>init\<close>. \<open>changed\<close> lists the
  names of the flags that were given on the command line.
\<close>

record flags =
  flag_name :: string
  flag_environment :: string
  flag_log :: string
  flag_number :: string
  flag_silent :: bool
  flag_yes :: bool
  flag_no_defaults :: bool
  flag_defaults :: bool
  flag_json :: bool
  changed :: "string list"

subsection \<open>Effects\<close>

text \<open>The calls of \<open>src/unnamed/part_000\<close> into the API package, with their arguments.\<close>

datatype api_call =
    GetConfigs string bool string string
  | GetConfig string bool string string string
  | CreateConfig string bool string string string string bool
  | DeleteConfig string bool string string string
  | UpdateConfig string bool string string string string
  | GetConfigLogs string bool string string string
  | GetConfigLog string bool string string string string
  | RollbackConfigLog string bool string string string string

text \<open>
  The calls of \<open>src/cmd/configs.go\<close> into the API package. The first argument of the Go
  functions, \<open>cmd\<close>, is left out.
\<close>

datatype api0_call =
    GetAPIConfigs string string
  | GetAPIConfig string string string
  | CreateAPIConfig string string string string bool
  | DeleteAPIConfig string string string
  | UpdateAPIConfig string string string string

text \<open>
  What a command body does, in order. \<open>'log\<close> is the type of an audit log entry
  (\<open>api.Log\<close>), which the command bodies only pass on.
\<close>

datatype 'log event =
    Api api_call
  | Api0 api0_call
  | Prompt string bool
  | Reported go_error "string list"
  | RequiredFlagsNotSet "string list"
  | Println string
  | PrintTable "string list" "string list list"
  | PrintConfigsInfo "ConfigInfo list" bool
  | PrintConfigInfo ConfigInfo bool
  | PrintLogs "'log list" int bool
  | PrintLog 'log bool

text \<open>
  A command body either returns (the process then ends with status 0) or the process is
  terminated with a non-zero status before the body returns.
\<close>

datatype outcome = Returned | Failed

type_synonym 'log run = "'log event list \<times> outcome"

definition andThen :: "'log event list \<Rightarrow> 'log run \<Rightarrow> 'log run" where
  "andThen evs r = (evs @ fst r, snd r)"

definition finish :: "'log event list \<Rightarrow> 'log run" where
  "finish evs = (evs, Returned)"

text \<open>
  Modelled from the spec: \<open>utils.Err(err, messages...)\<close>, which is not under \<open>src/\<close>. The spec:
  an error is reported with its underlying cause and message, and the process then terminates
  with non-zero status; validation errors are reported immediately, no network call made.
\<close>

definition Err :: "go_error \<Rightarrow> string list \<Rightarrow> 'log run" where
  "Err e messages = ([Reported e messages], Failed)"

text \<open>The API calls among the effects of a run, in order.\<close>

fun api_calls :: "'log event list \<Rightarrow> api_call list" where
  "api_calls [] = []"
| "api_calls (Api c # evs) = c # api_calls evs"
| "api_calls (_ # evs) = api_calls evs"

fun api0_calls :: "'log event list \<Rightarrow> api0_call list" where
  "api0_calls [] = []"
| "api0_calls (Api0 c # evs) = c # api0_calls evs"
| "api0_calls (_ # evs) = api0_calls evs"

text \<open>The errors handed to \<open>utils.Err\<close>, in order.\<close>

fun reports :: "'log event list \<Rightarrow> (go_error \<times> string list) list" where
  "reports [] = []"
| "reports (Reported e messages # evs) = (e, messages) # reports evs"
| "reports (_ # evs) = reports evs"


subsection \<open>What a command body reads\<close>

text \<open>
  Everything outside the command layer is a parameter: the settings bundle, the global
  \<open>utils.JSON\<close>, the helpers \<open>utils.GetBool\<close>, \<open>utils.GetIntFlag\<close> and
  \<open>utils.ConfirmationPrompt\<close> (the answer of the user), and the functions of the API package.
  A function of \<open>pkg/api\<close> returns a payload and an \<open>api.Error\<close>; \<open>Inl err\<close> is the case
  \<open>!err.IsNil()\<close>. \<open>api.DeleteConfig\<close> returns the \<open>api.Error\<close> alone; \<open>Some err\<close> is the case
  \<open>!err.IsNil()\<close>. \<open>GetIntFlag w s n\<close> stands for \<open>utils.GetIntFlag(cmd, flag, n)\<close> where \<open>s\<close> is
  the text of the flag.
\<close>

record 'log world =
  JSON :: bool
  LocalConfig :: local_config
  GetBool :: "string \<Rightarrow> bool \<Rightarrow> bool"
  GetIntFlag :: "string \<Rightarrow> int \<Rightarrow> int"
  ConfirmationPrompt :: "string \<Rightarrow> bool \<Rightarrow> bool"
  api_GetConfigs :: "string \<Rightarrow> bool \<Rightarrow> string \<Rightarrow> string \<Rightarrow> api_Error + ConfigInfo list"
  api_GetConfig :: "string \<Rightarrow> bool \<Rightarrow> string \<Rightarrow> string \<Rightarrow> string \<Rightarrow> api_Error + ConfigInfo"
  api_CreateConfig ::
    "string \<Rightarrow> bool \<Rightarrow> string \<Rightarrow> string \<Rightarrow> string \<Rightarrow> string \<Rightarrow> bool \<Rightarrow> api_Error + ConfigInfo"
  api_DeleteConfig :: "string \<Rightarrow> bool \<Rightarrow> string \<Rightarrow> string \<Rightarrow> string \<Rightarrow> api_Error option"
  api_UpdateConfig ::
    "string \<Rightarrow> bool \<Rightarrow> string \<Rightarrow> string \<Rightarrow> string \<Rightarrow> string \<Rightarrow> api_Error + ConfigInfo"
  api_GetConfigLogs :: "string \<Rightarrow> bool \<Rightarrow> string \<Rightarrow> string \<Rightarrow> string \<Rightarrow> api_Error + 'log list"
  api_GetConfigLog ::
    "string \<Rightarrow> bool \<Rightarrow> string \<Rightarrow> string \<Rightarrow> string \<Rightarrow> string \<Rightarrow> api_Error + 'log"
  api_RollbackConfigLog ::
    "string \<Rightarrow> bool \<Rightarrow> string \<Rightarrow> string \<Rightarrow> string \<Rightarrow> string \<Rightarrow> api_Error + 'log"

text \<open>The four arguments that every call of \<open>src/unnamed/part_000\<close> starts with.\<close>

definition host :: "'log world \<Rightarrow> string" where
  "host w = APIHost_Value (LocalConfig w)"

definition verifyTLS :: "'log world \<Rightarrow> bool" where
  "verifyTLS w = GetBool w (VerifyTLS_Value (LocalConfig w)) True"

definition token :: "'log world \<Rightarrow> string" where
  "token w = Token_Value (LocalConfig w)"

definition project :: "'log world \<Rightarrow> string" where
  "project w = Project_Value (LocalConfig w)"

text \<open>
  \<open>x := v; if len(args) > 0 { x = args[0] }\<close>: the first positional argument, when there is
  one, replaces the value \<open>v\<close>.
\<close>

definition positional :: "string list \<Rightarrow> string \<Rightarrow> string" where
  "positional args v = (if length args > 0 then args ! 0 else v)"

text \<open>
  Go's \<open>strings.Index(s, substr)\<close>: the index of the first instance of \<open>substr\<close> in \<open>s\<close>, or
  \<open>-1\<close> when there is none.
\<close>

fun Index :: "string \<Rightarrow> string \<Rightarrow> int" where
  "Index [] substr = (if substr = [] then 0 else - 1)"
| "Index (c # s) substr =
     (if take (length substr) (c # s) = substr then 0
      else (let i = Index s substr in if i = - 1 then - 1 else i + 1))"

subsection \<open>The commands of \<open>src/unnamed/part_000\<close>\<close>

definition configsCmd :: "'log world \<Rightarrow> flags \<Rightarrow> string list \<Rightarrow> 'log run" where
  "configsCmd w cmd args =
     (let jsonFlag = JSON w in
      andThen [Api (GetConfigs (host w) (verifyTLS w) (token w) (project w))]
        (case api_GetConfigs w (host w) (verifyTLS w) (token w) (project w) of
           Inl err \<Rightarrow> Err (Unwrap err) [Message err]
         | Inr configs \<Rightarrow> finish [PrintConfigsInfo configs jsonFlag]))"

definition configsGetCmd :: "'log world \<Rightarrow> flags \<Rightarrow> string list \<Rightarrow> 'log run" where
  "configsGetCmd w cmd args =
     (let jsonFlag = JSON w;
          config = positional args (Config_Value (LocalConfig w)) in
      andThen [Api (GetConfig (host w) (verifyTLS w) (token w) (project w) config)]
        (case api_GetConfig w (host w) (verifyTLS w) (token w) (project w) config of
           Inl err \<Rightarrow> Err (Unwrap err) [Message err]
         | Inr configInfo \<Rightarrow> finish [PrintConfigInfo configInfo jsonFlag]))"

text \<open>Lines 91 to 93: the environment after the derivation from the name.\<close>

definition derive_environment :: "string \<Rightarrow> string \<Rightarrow> string" where
  "derive_environment name environment =
     (if environment = [] \<and> Index name ''_'' \<noteq> - 1
      then take (nat (Index name ''_'')) name
      else environment)"

definition configsCreateCmd :: "'log world \<Rightarrow> flags \<Rightarrow> string list \<Rightarrow> 'log run" where
  "configsCreateCmd w cmd args =
     (let jsonFlag = JSON w;
          silent = flag_silent cmd;
          defaults = (\<not> flag_no_defaults cmd);
          name = positional args (flag_name cmd) in
      if name = [] then Err ''you must specify a name'' []
      else
        (let environment = derive_environment name (flag_environment cmd) in
         if environment = [] then Err ''you must specify an environment'' []
         else
           andThen
             [Api (CreateConfig (host w) (verifyTLS w) (token w) (project w) name environment defaults)]
             (case api_CreateConfig w (host w) (verifyTLS w) (token w) (project w) name environment
                     defaults of
                Inl err \<Rightarrow> Err (Unwrap err) [Message err]
              | Inr info \<Rightarrow> finish (if \<not> silent then [PrintConfigInfo info jsonFlag] else []))))"

text \<open>
  In \<open>yes || utils.ConfirmationPrompt(...)\<close> the prompt is shown only when \<open>yes\<close> is false.
  \<open>deleteAndList\<close> is the body of that \<open>if\<close>.
\<close>

definition deleteAndList :: "'log world \<Rightarrow> bool \<Rightarrow> bool \<Rightarrow> string \<Rightarrow> 'log run" where
  "deleteAndList w jsonFlag silent config =
     andThen [Api (DeleteConfig (host w) (verifyTLS w) (token w) (project w) config)]
       (case api_DeleteConfig w (host w) (verifyTLS w) (token w) (project w) config of
          Some err \<Rightarrow> Err (Unwrap err) [Message err]
        | None \<Rightarrow>
            (if \<not> silent then
               andThen [Api (GetConfigs (host w) (verifyTLS w) (token w) (project w))]
                 (case api_GetConfigs w (host w) (verifyTLS w) (token w) (project w) of
                    Inl err \<Rightarrow> Err (Unwrap err) [Message err]
                  | Inr configs \<Rightarrow> finish [PrintConfigsInfo configs jsonFlag])
             else finish []))"

definition configsDeleteCmd :: "'log world \<Rightarrow> flags \<Rightarrow> string list \<Rightarrow> 'log run" where
  "configsDeleteCmd w cmd args =
     (let jsonFlag = JSON w;
          silent = flag_silent cmd;
          yes = flag_yes cmd;
          config = positional args (Config_Value (LocalConfig w)) in
      if yes then deleteAndList w jsonFlag silent config
      else
        andThen [Prompt (''Delete config '' @ config) False]
          (if ConfirmationPrompt w (''Delete config '' @ config) False
           then deleteAndList w jsonFlag silent config
           else finish []))"

definition configsUpdateCmd :: "'log world \<Rightarrow> flags \<Rightarrow> string list \<Rightarrow> 'log run" where
  "configsUpdateCmd w cmd args =
     (let jsonFlag = JSON w;
          silent = flag_silent cmd;
          name = flag_name cmd;
          config = positional args (Config_Value (LocalConfig w)) in
      andThen [Api (UpdateConfig (host w) (verifyTLS w) (token w) (project w) config name)]
        (case api_UpdateConfig w (host w) (verifyTLS w) (token w) (project w) config name of
           Inl err \<Rightarrow> Err (Unwrap err) [Message err]
         | Inr info \<Rightarrow> finish (if \<not> silent then [PrintConfigInfo info jsonFlag] else [])))"

definition configsLogsCmd :: "'log world \<Rightarrow> flags \<Rightarrow> string list \<Rightarrow> 'log run" where
  "configsLogsCmd w cmd args =
     (let jsonFlag = JSON w;
          number = GetIntFlag w (flag_number cmd) 16;
          config = Config_Value (LocalConfig w) in
      andThen [Api (GetConfigLogs (host w) (verifyTLS w) (token w) (project w) config)]
        (case api_GetConfigLogs w (host w) (verifyTLS w) (token w) (project w) config of
           Inl err \<Rightarrow> Err (Unwrap err) [Message err]
         | Inr logs \<Rightarrow> finish [PrintLogs logs number jsonFlag]))"

definition configsLogsGetCmd :: "'log world \<Rightarrow> flags \<Rightarrow> string list \<Rightarrow> 'log run" where
  "configsLogsGetCmd w cmd args =
     (let jsonFlag = JSON w;
          config = Config_Value (LocalConfig w);
          log = positional args (flag_log cmd) in
      andThen [Api (GetConfigLog (host w) (verifyTLS w) (token w) (project w) config log)]
        (case api_GetConfigLog w (host w) (verifyTLS w) (token w) (project w) config log of
           Inl err \<Rightarrow> Err (Unwrap err) [Message err]
         | Inr configLog \<Rightarrow> finish [PrintLog configLog jsonFlag]))"

definition configsLogsRollbackCmd :: "'log world \<Rightarrow> flags \<Rightarrow> string list \<Rightarrow> 'log run" where
  "configsLogsRollbackCmd w cmd args =
     (let jsonFlag = JSON w;
          silent = flag_silent cmd;
          config = Config_Value (LocalConfig w);
          log = positional args (flag_log cmd) in
      andThen [Api (RollbackConfigLog (host w) (verifyTLS w) (token w) (project w) config log)]
        (case api_RollbackConfigLog w (host w) (verifyTLS w) (token w) (project w) config log of
           Inl err \<Rightarrow> Err (Unwrap err) [Message err]
         | Inr configLog \<Rightarrow> finish (if \<not> silent then [PrintLog configLog jsonFlag] else [])))"

subsection \<open>The renderers of \<open>src/cmd/configs.go\<close>\<close>

text \<open>
  Go's \<open>strings.Join(elems, sep)\<close>: the elements, with \<open>sep\<close> between each two of them.
\<close>

fun Join :: "string list \<Rightarrow> string \<Rightarrow> string" where
  "Join [] sep = []"
| "Join [e] sep = e"
| "Join (e # es) sep = e @ sep @ Join es sep"

text \<open>
  What \<open>json.Marshal\<close> is applied to: one \<open>api.ConfigInfo\<close> (in \<open>printConfigInfo\<close>) or a slice
  of them (in \<open>printConfigsInfo\<close>).
\<close>

datatype payload = Single ConfigInfo | Multi "ConfigInfo list"

text \<open>
  What the command bodies of \<open>src/cmd/configs.go\<close> read. \<open>json.Marshal\<close> belongs to the Go
  library and is a parameter, \<open>Inl err\<close> being \<open>err != nil\<close>. The functions of the API
  package return two values, of which the command bodies keep the second.
\<close>

record world0 =
  LocalConfig0 :: local_config
  Marshal :: "payload \<Rightarrow> go_error + string"
  api_GetAPIConfigs :: "string \<Rightarrow> string \<Rightarrow> ConfigInfo list"
  api_GetAPIConfig :: "string \<Rightarrow> string \<Rightarrow> string \<Rightarrow> ConfigInfo"
  api_CreateAPIConfig :: "string \<Rightarrow> string \<Rightarrow> string \<Rightarrow> string \<Rightarrow> bool \<Rightarrow> ConfigInfo"
  api_UpdateAPIConfig :: "string \<Rightarrow> string \<Rightarrow> string \<Rightarrow> string \<Rightarrow> ConfigInfo"

text \<open>
  This revision has no audit log commands: in its effects the type of log entries is \<open>unit\<close>.
\<close>

type_synonym run0 = "unit run"

definition header :: "string list" where
  "header = [''name'', ''missing_variables'', ''deployed_at'', ''created_at'', ''stage'', ''project'']"

text \<open>The row that lines 182 and 198 build from one record.\<close>

definition row :: "ConfigInfo \<Rightarrow> string list" where
  "row info =
     [Name info, Join (MissingVariables info) '', '', DeployedAt info, CreatedAt info,
      Environment info, Project info]"

text \<open>The loop of lines 180 to 183: \<open>rows\<close> starts empty and grows by one row per record.\<close>

fun append_rows :: "string list list \<Rightarrow> ConfigInfo list \<Rightarrow> string list list" where
  "append_rows rows [] = rows"
| "append_rows rows (configInfo # info) = append_rows (rows @ [row configInfo]) info"

definition printConfigsInfo :: "world0 \<Rightarrow> ConfigInfo list \<Rightarrow> bool \<Rightarrow> run0" where
  "printConfigsInfo w info jsonFlag =
     (if jsonFlag then
        (case Marshal w (Multi info) of
           Inl err \<Rightarrow> Err err []
         | Inr resp \<Rightarrow> finish [Println resp])
      else finish [PrintTable header (append_rows [] info)])"

definition printConfigInfo :: "world0 \<Rightarrow> ConfigInfo \<Rightarrow> bool \<Rightarrow> run0" where
  "printConfigInfo w info jsonFlag =
     (if jsonFlag then
        (case Marshal w (Single info) of
           Inl err \<Rightarrow> Err err []
         | Inr resp \<Rightarrow> finish [Println resp])
      else finish [PrintTable header [row info]])"

subsection \<open>The commands of \<open>src/cmd/configs.go\<close>\<close>

definition key0 :: "world0 \<Rightarrow> string" where
  "key0 w = Key_Value (LocalConfig0 w)"

definition project0 :: "world0 \<Rightarrow> string" where
  "project0 w = Project_Value (LocalConfig0 w)"



definition configsCreateCmd0 :: "world0 \<Rightarrow> flags \<Rightarrow> string list \<Rightarrow> run0" where
  "configsCreateCmd0 w cmd args =
     (let jsonFlag = flag_json cmd;
          silent = flag_silent cmd;
          defaults = flag_defaults cmd;
          environment = flag_environment cmd;
          name = positional args (flag_name cmd);
          info = api_CreateAPIConfig w (key0 w) (project0 w) name environment defaults in
      andThen [Api0 (CreateAPIConfig (key0 w) (project0 w) name environment defaults)]
        (if \<not> silent then printConfigInfo w info jsonFlag else finish []))"



text \<open>
  Line 149, \<open>configsCreateCmd.MarkFlagRequired("environment")\<close>: the command line parser
  reports an error, and does not run the command body, when the flag was not given on the
  command line.
\<close>

definition invoke_configsCreateCmd0 :: "world0 \<Rightarrow> flags \<Rightarrow> string list \<Rightarrow> run0" where
  "invoke_configsCreateCmd0 w cmd args =
     (if ''environment'' \<in> set (changed cmd) then configsCreateCmd0 w cmd args
      else ([RequiredFlagsNotSet [''environment'']], Failed))"

subsection \<open>The serialized form of a payload\<close>

text \<open>
  Modelled from the spec: the JSON text of a payload, which is what \<open>json.Marshal\<close> makes of an
  \<open>api.ConfigInfo\<close>. The declaration of \<open>api.ConfigInfo\<close>, with the names of its fields in
  JSON, is in the API package and not under \<open>src/\<close>. The spec: with \<open>--json\<close> the output is a
  JSON-serialized payload of the same fields as the table, which are name,
  missing_variables, deployed_at, created_at, environment and project, with no field added,
  dropped, or reordered relative to the declared schema.

  So a record is an object with these six members in this order, a list is an array, and
  nothing stands between the parts. In a string, the quotation mark, the backslash, line
  feed, carriage return and tab are written with a backslash before them (the last three as
  the letters n, r and t); the other bytes below 32, and the characters less-than,
  greater-than and ampersand, are written as a backslash, the letter u and four hexadecimal
  digits; every other byte stands as it is.
\<close>

definition quote :: char where
  "quote = CHR 0x22"

definition backslash :: char where
  "backslash = CHR 0x5C"

definition hexdigit :: "nat \<Rightarrow> char" where
  "hexdigit n = (if n < 10 then char_of (48 + n) else char_of (87 + n))"


definition escape :: "char \<Rightarrow> string" where
  "escape c =
     (if c = quote then [backslash, quote]
      else if c = backslash then [backslash, backslash]
      else if c = CHR 0x0A then [backslash, CHR ''n'']
      else if c = CHR 0x0D then [backslash, CHR ''r'']
      else if c = CHR 0x09 then [backslash, CHR ''t'']
      else if (of_char c :: nat) < 32 \<or> c = CHR ''<'' \<or> c = CHR ''>'' \<or> c = CHR ''&''
      then [backslash, CHR ''u'', CHR ''0'', CHR ''0'',
            hexdigit ((of_char c :: nat) div 16), hexdigit ((of_char c :: nat) mod 16)]
      else [c])"

definition json_string :: "string \<Rightarrow> string" where
  "json_string s = [quote] @ concat (map escape s) @ [quote]"

fun more_strings :: "string list \<Rightarrow> string" where
  "more_strings [] = []"
| "more_strings (x # xs) = CHR '','' # json_string x @ more_strings xs"

fun json_strings :: "string list \<Rightarrow> string" where
  "json_strings [] = ''[]''"
| "json_strings (x # xs) = CHR ''['' # json_string x @ more_strings xs @ '']''"

definition json_object :: "ConfigInfo \<Rightarrow> string" where
  "json_object c =
     ''{'' @ json_string ''name'' @ '':'' @ json_string (Name c) @
     '','' @ json_string ''missing_variables'' @ '':'' @ json_strings (MissingVariables c) @
     '','' @ json_string ''deployed_at'' @ '':'' @ json_string (DeployedAt c) @
     '','' @ json_string ''created_at'' @ '':'' @ json_string (CreatedAt c) @
     '','' @ json_string ''environment'' @ '':'' @ json_string (Environment c) @
     '','' @ json_string ''project'' @ '':'' @ json_string (Project c) @ ''}''"

fun more_objects :: "ConfigInfo list \<Rightarrow> string" where
  "more_objects [] = []"
| "more_objects (c # cs) = CHR '','' # json_object c @ more_objects cs"

fun json_objects :: "ConfigInfo list \<Rightarrow> string" where
  "json_objects [] = ''[]''"
| "json_objects (c # cs) = CHR ''['' # json_object c @ more_objects cs @ '']''"

text \<open>
  Modelled from the spec: the serialized form of what \<open>printConfigInfo\<close> and
  \<open>printConfigsInfo\<close> hand to \<open>json.Marshal\<close>, a record or a list of records.
\<close>

fun serialize :: "payload \<Rightarrow> string" where
  "serialize (Single c) = json_object c"
| "serialize (Multi cs) = json_objects cs"

text \<open>
  Modelled from the spec: \<open>json.Marshal\<close> on a payload, when it is this serializer. It returns
  no error.
\<close>

definition json_Marshal :: "payload \<Rightarrow> go_error + string" where
  "json_Marshal p = Inr (serialize p)"

text \<open>
  Modelled from the spec: reading a payload back from its JSON text, which is the
  deserializing of the round trip that the spec asks for. The text is cut into tokens by
  \<open>scan\<close>, one character at a time; \<open>mode\<close> says where in a string or in an escape the
  scanner is, and holds the bytes of the string read so far.
\<close>

datatype token = TStr string | LBrace | RBrace | LBrack | RBrack | Colon | Comma

















subsection \<open>Concrete inputs\<close>

definition example_config :: local_config where
  "example_config =
     \<lparr>APIHost_Value = ''https://api.doppler.com'', VerifyTLS_Value = ''true'',
      Token_Value = ''token'', Key_Value = ''key'', Project_Value = ''backend'',
      Config_Value = ''dev''\<rparr>"

definition example_info :: ConfigInfo where
  "example_info =
     \<lparr>Name = ''backend_dev'', MissingVariables = [''DB_URL'', ''PORT''], DeployedAt = ''never'',
      CreatedAt = ''2019-10-01'', Environment = ''backend'', Project = ''backend''\<rparr>"

definition example_error :: api_Error where
  "example_error = \<lparr>Unwrap = ''connection refused'', Message = ''Unable to reach the API''\<rparr>"

text \<open>Flags as they are when none is given on the command line.\<close>

definition no_flags :: flags where
  "no_flags =
     \<lparr>flag_name = [], flag_environment = [], flag_log = [], flag_number = ''5'',
      flag_silent = False, flag_yes = False, flag_no_defaults = False, flag_defaults = True,
      flag_json = False, changed = []\<rparr>"

definition dev_flags :: flags where
  "dev_flags = no_flags\<lparr>flag_environment := ''dev'', changed := [''environment'']\<rparr>"

definition yes_flags :: flags where
  "yes_flags = no_flags\<lparr>flag_yes := True, changed := [''yes'']\<rparr>"



text \<open>A world in which every API call succeeds and the user declines the prompt.\<close>

definition good_world :: "string world" where
  "good_world =
     \<lparr>JSON = False, LocalConfig = example_config,
      GetBool = (\<lambda>s d. if s = ''true'' then True else if s = ''false'' then False else d),
      GetIntFlag = (\<lambda>s bits. 5),
      ConfirmationPrompt = (\<lambda>m d. False),
      api_GetConfigs = (\<lambda>h v t p. Inr [example_info]),
      api_GetConfig = (\<lambda>h v t p c. Inr example_info),
      api_CreateConfig = (\<lambda>h v t p n e d. Inr example_info),
      api_DeleteConfig = (\<lambda>h v t p c. None),
      api_UpdateConfig = (\<lambda>h v t p c n. Inr example_info),
      api_GetConfigLogs = (\<lambda>h v t p c. Inr [''log1'', ''log2'']),
      api_GetConfigLog = (\<lambda>h v t p c l. Inr l),
      api_RollbackConfigLog = (\<lambda>h v t p c l. Inr l)\<rparr>"

text \<open>A world in which every API call fails with \<open>example_error\<close>.\<close>

definition bad_world :: "string world" where
  "bad_world =
     \<lparr>JSON = False, LocalConfig = example_config,
      GetBool = (\<lambda>s d. if s = ''true'' then True else if s = ''false'' then False else d),
      GetIntFlag = (\<lambda>s bits. 5),
      ConfirmationPrompt = (\<lambda>m d. False),
      api_GetConfigs = (\<lambda>h v t p. Inl example_error),
      api_GetConfig = (\<lambda>h v t p c. Inl example_error),
      api_CreateConfig = (\<lambda>h v t p n e d. Inl example_error),
      api_DeleteConfig = (\<lambda>h v t p c. Some example_error),
      api_UpdateConfig = (\<lambda>h v t p c n. Inl example_error),
      api_GetConfigLogs = (\<lambda>h v t p c. Inl example_error),
      api_GetConfigLog = (\<lambda>h v t p c l. Inl example_error),
      api_RollbackConfigLog = (\<lambda>h v t p c l. Inl example_error)\<rparr>"

text \<open>
  A world in which the delete call succeeds and the list call fails with \<open>example_error\<close>.
\<close>

definition list_fails_world :: "string world" where
  "list_fails_world = good_world\<lparr>api_GetConfigs := (\<lambda>h v t p. Inl example_error)\<rparr>"

text \<open>A world for \<open>src/cmd/configs.go\<close>, with the serializer for \<open>json.Marshal\<close>.\<close>

definition example_world0 :: world0 where
  "example_world0 =
     \<lparr>LocalConfig0 = example_config, Marshal = json_Marshal,
      api_GetAPIConfigs = (\<lambda>k p. [example_info]),
      api_GetAPIConfig = (\<lambda>k p c. example_info),
      api_CreateAPIConfig = (\<lambda>k p n e d. example_info),
      api_UpdateAPIConfig = (\<lambda>k p c n. example_info)\<rparr>"

section \<open>Properties\<close>

subsection \<open>Auxiliary facts\<close>

lemma Index_single:
  "Index s [c] = (if c \<in> set s then int (length (takeWhile (\<lambda>x. x \<noteq> c) s)) else - 1)"
  by (induction s) (auto simp: Let_def)

lemma derive_environment_empty_flag:
  "derive_environment name [] =
     (if CHR ''_'' \<in> set name then takeWhile (\<lambda>c. c \<noteq> CHR ''_'') name else [])"
  by (simp add: derive_environment_def Index_single takeWhile_eq_take [symmetric])

lemma takeWhile_empty_iff:
  "CHR ''_'' \<in> set name \<Longrightarrow> takeWhile (\<lambda>c. c \<noteq> CHR ''_'') name = [] \<longleftrightarrow> take 1 name = ''_''"
  by (cases name) auto

lemmas run_defs = andThen_def finish_def Err_def Let_def

lemmas world_defs = good_world_def bad_world_def example_config_def example_info_def
  example_error_def no_flags_def host_def verifyTLS_def token_def project_def positional_def


lemma good_world_args:
  "host good_world = ''https://api.doppler.com''" "verifyTLS good_world = True"
  "token good_world = ''token''" "project good_world = ''backend''"
  "Config_Value (LocalConfig good_world) = ''dev''"
  by (simp_all add: host_def verifyTLS_def token_def project_def good_world_def example_config_def)

lemma bad_world_args:
  "host bad_world = ''https://api.doppler.com''" "verifyTLS bad_world = True"
  "token bad_world = ''token''" "project bad_world = ''backend''"
  "Config_Value (LocalConfig bad_world) = ''dev''"
  by (simp_all add: host_def verifyTLS_def token_def project_def bad_world_def example_config_def)

lemma good_world_api:
  "api_GetConfigs good_world h v t p = Inr [example_info]"
  "api_CreateConfig good_world h v t p n e d = Inr example_info"
  "api_DeleteConfig good_world h v t p c = None"
  "api_UpdateConfig good_world h v t p c n = Inr example_info"
  "api_RollbackConfigLog good_world h v t p c l = Inr l"
  "ConfirmationPrompt good_world m b = False"
  "JSON good_world = False"
  by (simp_all add: good_world_def)

lemma bad_world_api:
  "api_GetConfigs bad_world h v t p = Inl example_error"
  "api_CreateConfig bad_world h v t p n e d = Inl example_error"
  "api_DeleteConfig bad_world h v t p c = Some example_error"
  "api_UpdateConfig bad_world h v t p c n = Inl example_error"
  "api_RollbackConfigLog bad_world h v t p c l = Inl example_error"
  "ConfirmationPrompt bad_world m b = False"
  "JSON bad_world = False"
  by (simp_all add: bad_world_def)

subsection \<open>Creating a config\<close>

text \<open>
  C1, as the code has it. \<open>create\<close> is invoked with an empty \<open>--environment\<close> flag and its name
  resolves to \<open>name\<close>. When \<open>name\<close> contains an underscore that is not its first character,
  the derived environment is the part of \<open>name\<close> strictly before the first underscore, and
  the one API call of the command is the create call with that environment. When \<open>name\<close>
  contains no underscore, or begins with one, the derivation yields the empty string and the
  command is rejected: no API call, non-zero exit status.
\<close>

theorem create_environment_from_name:
  assumes "flag_environment cmd = []" and "name = positional args (flag_name cmd)"
  shows "(CHR ''_'' \<in> set name \<and> take 1 name \<noteq> ''_'' \<longrightarrow>
            derive_environment name [] = takeWhile (\<lambda>c. c \<noteq> CHR ''_'') name \<and>
            api_calls (fst (configsCreateCmd w cmd args)) =
              [CreateConfig (host w) (verifyTLS w) (token w) (project w) name
                 (takeWhile (\<lambda>c. c \<noteq> CHR ''_'') name) (\<not> flag_no_defaults cmd)]) \<and>
         (CHR ''_'' \<notin> set name \<or> take 1 name = ''_'' \<longrightarrow>
            derive_environment name [] = [] \<and>
            api_calls (fst (configsCreateCmd w cmd args)) = [] \<and>
            snd (configsCreateCmd w cmd args) = Failed)"
proof (intro conjI impI)
  assume a: "CHR ''_'' \<in> set name \<and> take 1 name \<noteq> ''_''"
  then have ne: "name \<noteq> []" by auto
  from a have tw: "takeWhile (\<lambda>c. c \<noteq> CHR ''_'') name \<noteq> []"
    by (simp add: takeWhile_empty_iff)
  from a show "derive_environment name [] = takeWhile (\<lambda>c. c \<noteq> CHR ''_'') name"
    by (simp add: derive_environment_empty_flag)
  with a ne tw assms show "api_calls (fst (configsCreateCmd w cmd args)) =
              [CreateConfig (host w) (verifyTLS w) (token w) (project w) name
                 (takeWhile (\<lambda>c. c \<noteq> CHR ''_'') name) (\<not> flag_no_defaults cmd)]"
    by (simp add: configsCreateCmd_def run_defs split: sum.splits)
next
  assume b: "CHR ''_'' \<notin> set name \<or> take 1 name = ''_''"
  then show d: "derive_environment name [] = []"
    by (auto simp: derive_environment_empty_flag takeWhile_empty_iff)
  with assms show "api_calls (fst (configsCreateCmd w cmd args)) = []"
    by (simp add: configsCreateCmd_def run_defs)
  from d assms show "snd (configsCreateCmd w cmd args) = Failed"
    by (simp add: configsCreateCmd_def run_defs)
qed

text \<open>
  The two scenarios of the specification: \<open>configs create backend_dev\<close> sends the environment
  \<open>backend\<close>, and \<open>configs create myconfig\<close> is rejected without an API call.
\<close>

theorem create_environment_from_name_witness:
  "flag_environment no_flags = [] \<and>
   CHR ''_'' \<in> set ''backend_dev'' \<and> take 1 ''backend_dev'' \<noteq> ''_'' \<and>
   api_calls (fst (configsCreateCmd good_world no_flags [''backend_dev''])) =
     [CreateConfig ''https://api.doppler.com'' True ''token'' ''backend'' ''backend_dev'' ''backend'' True] \<and>
   CHR ''_'' \<notin> set ''myconfig'' \<and>
   api_calls (fst (configsCreateCmd good_world no_flags [''myconfig''])) = [] \<and>
   snd (configsCreateCmd good_world no_flags [''myconfig'']) = Failed"
  using create_environment_from_name [of no_flags "''backend_dev''" "[''backend_dev'']" good_world]
    create_environment_from_name [of no_flags "''myconfig''" "[''myconfig'']" good_world]
  by (simp add: world_defs)

text \<open>
  The name \<open>_dev\<close> contains an underscore, and nothing is sent to the API: the part before the
  first underscore is empty, and line 95 rejects the empty environment.
\<close>

theorem create_leading_underscore_counterexample:
  "CHR ''_'' \<in> set ''_dev'' \<and> flag_environment no_flags = [] \<and>
   positional [''_dev''] (flag_name no_flags) = ''_dev'' \<and>
   configsCreateCmd good_world no_flags [''_dev''] =
     ([Reported ''you must specify an environment'' []], Failed) \<and>
   api_calls (fst (configsCreateCmd good_world no_flags [''_dev''])) = []"
  by (simp add: world_defs configsCreateCmd_def run_defs derive_environment_def)

text \<open>
  C9. For every name that begins with an underscore, \<open>create\<close> without an \<open>--environment\<close>
  flag derives the empty string as environment and is rejected with the error
  \<open>you must specify an environment\<close>: that report is the only effect, and the exit status is
  non-zero.
\<close>

theorem create_rejects_leading_underscore:
  assumes "flag_environment cmd = []"
      and "positional args (flag_name cmd) = CHR ''_'' # rest"
  shows "derive_environment (CHR ''_'' # rest) (flag_environment cmd) = [] \<and>
         configsCreateCmd w cmd args = ([Reported ''you must specify an environment'' []], Failed)"
  using assms by (simp add: configsCreateCmd_def run_defs derive_environment_def)

text \<open>\<open>configs create _staging\<close> is rejected.\<close>

theorem create_rejects_leading_underscore_witness:
  "flag_environment no_flags = [] \<and>
   positional [''_staging''] (flag_name no_flags) = CHR ''_'' # ''staging'' \<and>
   configsCreateCmd good_world no_flags [''_staging''] =
     ([Reported ''you must specify an environment'' []], Failed)"
  using create_rejects_leading_underscore [of no_flags "[''_staging'']" "''staging''" good_world]
  by (simp add: world_defs)

text \<open>
  In \<open>src/unnamed/part_000\<close>, an empty resolved name, and an environment that is still empty
  after the derivation, are each reported as a validation error, and no API call is made.
\<close>

lemma create_rejects_empty:
  assumes "name = positional args (flag_name cmd)"
  shows "(name = [] \<longrightarrow>
            configsCreateCmd w cmd args = ([Reported ''you must specify a name'' []], Failed) \<and>
            api_calls (fst (configsCreateCmd w cmd args)) = []) \<and>
         (name \<noteq> [] \<and> derive_environment name (flag_environment cmd) = [] \<longrightarrow>
            configsCreateCmd w cmd args =
              ([Reported ''you must specify an environment'' []], Failed) \<and>
            api_calls (fst (configsCreateCmd w cmd args)) = [])"
  using assms
  by (auto simp: configsCreateCmd_def run_defs split: sum.splits)

text \<open>
  C2. An empty resolved name must be rejected with a validation error and without an API
  call. \<open>src/cmd/configs.go\<close> does not do so: in \<open>configs create --environment dev\<close> the name
  resolves to the empty string, the required flag is given, and the body makes the create
  call with the empty name and returns. \<open>src/unnamed/part_000\<close> rejects the same invocation.
\<close>

theorem create0_sends_empty_name:
  "''environment'' \<in> set (changed dev_flags) \<and>
   positional [] (flag_name dev_flags) = [] \<and>
   api0_calls (fst (invoke_configsCreateCmd0 example_world0 dev_flags [])) =
     [CreateAPIConfig ''key'' ''backend'' [] ''dev'' True] \<and>
   snd (invoke_configsCreateCmd0 example_world0 dev_flags []) = Returned \<and>
   configsCreateCmd good_world dev_flags [] = ([Reported ''you must specify a name'' []], Failed)"
  by (simp add: world_defs dev_flags_def example_world0_def key0_def project0_def
      invoke_configsCreateCmd0_def configsCreateCmd0_def configsCreateCmd_def
      printConfigInfo_def row_def header_def run_defs)

subsection \<open>Deleting a config\<close>

text \<open>
  C3. When \<open>--yes\<close> is not set and the user answers no to the prompt \<open>Delete config\<close>
  followed by the resolved config name, \<open>delete\<close> makes no API call and its body returns, so
  the exit status is 0.
\<close>

theorem delete_declined:
  assumes "\<not> flag_yes cmd"
      and "\<not> ConfirmationPrompt w (''Delete config '' @ positional args (Config_Value (LocalConfig w))) False"
  shows "api_calls (fst (configsDeleteCmd w cmd args)) = [] \<and>
         snd (configsDeleteCmd w cmd args) = Returned"
  using assms by (simp add: configsDeleteCmd_def run_defs)

text \<open>\<open>configs delete dev\<close>, declined.\<close>

theorem delete_declined_witness:
  "\<not> flag_yes no_flags \<and>
   \<not> ConfirmationPrompt good_world (''Delete config '' @ ''dev'') False \<and>
   api_calls (fst (configsDeleteCmd good_world no_flags [''dev''])) = [] \<and>
   snd (configsDeleteCmd good_world no_flags [''dev'']) = Returned"
  using delete_declined [of no_flags good_world "[''dev'']"]
  by (simp add: world_defs)

text \<open>
  C4, as the code has it. When \<open>--yes\<close> is set or the user confirms, \<open>delete\<close> makes exactly
  one delete call. When that call succeeds, it is followed by exactly one list call if
  \<open>--silent\<close> is not set, and by no call if it is. When that call fails, no other call is
  made and the exit status is non-zero.
\<close>

theorem delete_confirmed:
  assumes "config = positional args (Config_Value (LocalConfig w))"
      and "flag_yes cmd \<or> ConfirmationPrompt w (''Delete config '' @ config) False"
  shows "(api_DeleteConfig w (host w) (verifyTLS w) (token w) (project w) config = None \<longrightarrow>
            api_calls (fst (configsDeleteCmd w cmd args)) =
              DeleteConfig (host w) (verifyTLS w) (token w) (project w) config #
              (if flag_silent cmd then []
               else [GetConfigs (host w) (verifyTLS w) (token w) (project w)])) \<and>
         (api_DeleteConfig w (host w) (verifyTLS w) (token w) (project w) config \<noteq> None \<longrightarrow>
            api_calls (fst (configsDeleteCmd w cmd args)) =
              [DeleteConfig (host w) (verifyTLS w) (token w) (project w) config] \<and>
            snd (configsDeleteCmd w cmd args) = Failed)"
  using assms
  by (auto simp: configsDeleteCmd_def deleteAndList_def run_defs split: sum.splits option.splits)

text \<open>\<open>configs delete dev --yes\<close> where the API succeeds: a delete call, then a list call.\<close>

theorem delete_confirmed_witness:
  "flag_yes yes_flags \<and> \<not> flag_silent yes_flags \<and>
   api_DeleteConfig good_world ''https://api.doppler.com'' True ''token'' ''backend'' ''dev'' = None \<and>
   api_calls (fst (configsDeleteCmd good_world yes_flags [''dev''])) =
     [DeleteConfig ''https://api.doppler.com'' True ''token'' ''backend'' ''dev'',
      GetConfigs ''https://api.doppler.com'' True ''token'' ''backend'']"
proof -
  have c: "''dev'' = positional [''dev''] (Config_Value (LocalConfig good_world))"
    by (simp add: positional_def)
  have y: "flag_yes yes_flags" "\<not> flag_silent yes_flags"
    by (simp_all add: yes_flags_def no_flags_def)
  have d: "api_DeleteConfig good_world ''https://api.doppler.com'' True ''token'' ''backend'' ''dev'' = None"
    by (simp add: good_world_api)
  from y(1) have "flag_yes yes_flags \<or> ConfirmationPrompt good_world (''Delete config '' @ ''dev'') False" ..
  from delete_confirmed [OF c this] y d show ?thesis
    by (simp add: good_world_args)
qed

text \<open>
  \<open>configs delete dev --yes\<close> without \<open>--silent\<close>, where the API fails: the delete call is
  the only call, no list call follows it.
\<close>

theorem delete_api_error_counterexample:
  "flag_yes yes_flags \<and> \<not> flag_silent yes_flags \<and>
   api_calls (fst (configsDeleteCmd bad_world yes_flags [''dev''])) =
     [DeleteConfig ''https://api.doppler.com'' True ''token'' ''backend'' ''dev'']"
  by (simp add: configsDeleteCmd_def deleteAndList_def run_defs bad_world_args positional_def
      yes_flags_def no_flags_def bad_world_api)

subsection \<open>Positional arguments\<close>

text \<open>
  C5. In \<open>get\<close>, \<open>update\<close> and \<open>delete\<close> the config name of the API call, and in \<open>logs get\<close>
  and \<open>logs rollback\<close> the log id of the API call, is the first positional argument when
  there is one, whatever the settings bundle or the \<open>--log\<close> flag holds; without a positional
  argument it is the config of the settings bundle, or the value of the \<open>--log\<close> flag. (The
  first API call of \<open>delete\<close> is made when \<open>--yes\<close> is set or the user confirms.)
\<close>

theorem positional_argument_overrides:
  "api_calls (fst (configsGetCmd w cmd (a # rest))) =
     [GetConfig (host w) (verifyTLS w) (token w) (project w) a] \<and>
   api_calls (fst (configsGetCmd w cmd [])) =
     [GetConfig (host w) (verifyTLS w) (token w) (project w) (Config_Value (LocalConfig w))] \<and>
   api_calls (fst (configsUpdateCmd w cmd (a # rest))) =
     [UpdateConfig (host w) (verifyTLS w) (token w) (project w) a (flag_name cmd)] \<and>
   api_calls (fst (configsUpdateCmd w cmd [])) =
     [UpdateConfig (host w) (verifyTLS w) (token w) (project w) (Config_Value (LocalConfig w))
        (flag_name cmd)] \<and>
   take 1 (api_calls (fst (configsDeleteCmd w cmd (a # rest)))) =
     (if flag_yes cmd \<or> ConfirmationPrompt w (''Delete config '' @ a) False
      then [DeleteConfig (host w) (verifyTLS w) (token w) (project w) a] else []) \<and>
   take 1 (api_calls (fst (configsDeleteCmd w cmd []))) =
     (if flag_yes cmd \<or>
         ConfirmationPrompt w (''Delete config '' @ Config_Value (LocalConfig w)) False
      then [DeleteConfig (host w) (verifyTLS w) (token w) (project w)
              (Config_Value (LocalConfig w))]
      else []) \<and>
   api_calls (fst (configsLogsGetCmd w cmd (a # rest))) =
     [GetConfigLog (host w) (verifyTLS w) (token w) (project w) (Config_Value (LocalConfig w)) a] \<and>
   api_calls (fst (configsLogsGetCmd w cmd [])) =
     [GetConfigLog (host w) (verifyTLS w) (token w) (project w) (Config_Value (LocalConfig w))
        (flag_log cmd)] \<and>
   api_calls (fst (configsLogsRollbackCmd w cmd (a # rest))) =
     [RollbackConfigLog (host w) (verifyTLS w) (token w) (project w)
        (Config_Value (LocalConfig w)) a] \<and>
   api_calls (fst (configsLogsRollbackCmd w cmd [])) =
     [RollbackConfigLog (host w) (verifyTLS w) (token w) (project w)
        (Config_Value (LocalConfig w)) (flag_log cmd)]"
  by (simp add: configsGetCmd_def configsUpdateCmd_def configsDeleteCmd_def deleteAndList_def
      configsLogsGetCmd_def configsLogsRollbackCmd_def positional_def run_defs
      split: sum.splits option.splits)

text \<open>
  \<open>configs get prd\<close> and \<open>configs get\<close> with the config \<open>dev\<close> in the settings bundle;
  \<open>configs logs rollback log9 --log log7\<close> and \<open>configs logs rollback --log log7\<close>.
\<close>

theorem positional_argument_overrides_witness:
  "api_calls (fst (configsGetCmd good_world no_flags [''prd''])) =
     [GetConfig ''https://api.doppler.com'' True ''token'' ''backend'' ''prd''] \<and>
   api_calls (fst (configsGetCmd good_world no_flags [])) =
     [GetConfig ''https://api.doppler.com'' True ''token'' ''backend'' ''dev''] \<and>
   api_calls (fst (configsLogsRollbackCmd good_world (no_flags\<lparr>flag_log := ''log7''\<rparr>) [''log9''])) =
     [RollbackConfigLog ''https://api.doppler.com'' True ''token'' ''backend'' ''dev'' ''log9''] \<and>
   api_calls (fst (configsLogsRollbackCmd good_world (no_flags\<lparr>flag_log := ''log7''\<rparr>) [])) =
     [RollbackConfigLog ''https://api.doppler.com'' True ''token'' ''backend'' ''dev'' ''log7'']"
  using positional_argument_overrides [of good_world no_flags "''prd''" "[]"]
    positional_argument_overrides [of good_world "no_flags\<lparr>flag_log := ''log7''\<rparr>" "''log9''" "[]"]
  by (simp add: good_world_args)

subsection \<open>Rendering\<close>

lemma append_rows_map: "append_rows rows info = rows @ map row info"
  by (induction info arbitrary: rows) simp_all




text \<open>
  C6. Without \<open>--json\<close>, a list of config records, and a single config record, is rendered as
  one table whose header is exactly \<open>name\<close>, \<open>missing_variables\<close>, \<open>deployed_at\<close>,
  \<open>created_at\<close>, \<open>stage\<close>, \<open>project\<close>, with one row per record, in which the cell under
  \<open>missing_variables\<close> is the names of the record's missing variables joined by a comma and a
  space.
\<close>

theorem table_rendering:
  "printConfigsInfo w info False =
     ([PrintTable
         [''name'', ''missing_variables'', ''deployed_at'', ''created_at'', ''stage'', ''project'']
         (map (\<lambda>c. [Name c, Join (MissingVariables c) '', '', DeployedAt c, CreatedAt c,
                    Environment c, Project c]) info)],
      Returned) \<and>
   length (map (\<lambda>c. [Name c, Join (MissingVariables c) '', '', DeployedAt c, CreatedAt c,
                    Environment c, Project c]) info) = length info \<and>
   printConfigInfo w c False =
     ([PrintTable
         [''name'', ''missing_variables'', ''deployed_at'', ''created_at'', ''stage'', ''project'']
         [[Name c, Join (MissingVariables c) '', '', DeployedAt c, CreatedAt c, Environment c,
           Project c]]],
      Returned)"
proof -
  have "map row info =
          map (\<lambda>c. [Name c, Join (MissingVariables c) '', '', DeployedAt c, CreatedAt c,
                    Environment c, Project c]) info"
    by (simp add: row_def)
  then show ?thesis
    by (simp add: printConfigsInfo_def printConfigInfo_def finish_def header_def
        append_rows_map row_def)
qed

text \<open>A record with the missing variables \<open>DB_URL\<close> and \<open>PORT\<close>, alone and twice in a list.\<close>

theorem table_rendering_witness:
  "printConfigInfo example_world0 example_info False =
     ([PrintTable
         [''name'', ''missing_variables'', ''deployed_at'', ''created_at'', ''stage'', ''project'']
         [[''backend_dev'', ''DB_URL, PORT'', ''never'', ''2019-10-01'', ''backend'', ''backend'']]],
      Returned) \<and>
   printConfigsInfo example_world0 [example_info, example_info] False =
     ([PrintTable
         [''name'', ''missing_variables'', ''deployed_at'', ''created_at'', ''stage'', ''project'']
         [[''backend_dev'', ''DB_URL, PORT'', ''never'', ''2019-10-01'', ''backend'', ''backend''],
          [''backend_dev'', ''DB_URL, PORT'', ''never'', ''2019-10-01'', ''backend'', ''backend'']]],
      Returned)"
  using table_rendering [of example_world0 "[example_info, example_info]" example_info]
  by (simp add: example_info_def)

subsection \<open>The round trip of the serialized form\<close>






















subsection \<open>Rendering as JSON\<close>




subsection \<open>The silent flag and API errors\<close>

lemma list_fails_world_reads:
  "host list_fails_world = ''https://api.doppler.com''" "verifyTLS list_fails_world = True"
  "token list_fails_world = ''token''" "project list_fails_world = ''backend''"
  "Config_Value (LocalConfig list_fails_world) = ''dev''"
  "api_DeleteConfig list_fails_world h v t p c = None"
  "api_GetConfigs list_fails_world h v t p = Inl example_error"
  by (simp_all add: list_fails_world_def host_def verifyTLS_def token_def project_def
      good_world_def example_config_def)

lemma example_error_text:
  "Unwrap example_error = ''connection refused''"
  "Message example_error = ''Unable to reach the API''"
  by (simp_all add: example_error_def)

text \<open>
  C10, as the code has it. In \<open>create\<close>, \<open>update\<close> and \<open>logs rollback\<close>, whatever the value of
  \<open>--silent\<close>: when the API call fails, the cause and the message of the error are handed to
  \<open>utils.Err\<close> and the process exits with non-zero status; when it succeeds, \<open>--silent\<close>
  removes the rendering of the result and nothing else. In \<open>delete\<close>, a failure of the delete
  call is reported in the same way whatever the value of \<open>--silent\<close>. After a delete call that
  succeeds, \<open>--silent\<close> removes the list call together with the rendering: without
  \<open>--silent\<close> a failure of the list call is reported and the exit status is non-zero, with
  \<open>--silent\<close> the list call is not made and the body returns.
\<close>

theorem silent_and_api_errors:
  assumes "name = positional args (flag_name cmd)"
      and "environment = derive_environment name (flag_environment cmd)"
      and "config = positional args (Config_Value (LocalConfig w))"
      and "log = positional args (flag_log cmd)"
      and "asked = (if flag_yes cmd then [] else [Prompt (''Delete config '' @ config) False])"
      and "create = CreateConfig (host w) (verifyTLS w) (token w) (project w) name environment
                      (\<not> flag_no_defaults cmd)"
      and "update = UpdateConfig (host w) (verifyTLS w) (token w) (project w) config (flag_name cmd)"
      and "rollback = RollbackConfigLog (host w) (verifyTLS w) (token w) (project w)
                        (Config_Value (LocalConfig w)) log"
      and "delete = DeleteConfig (host w) (verifyTLS w) (token w) (project w) config"
      and "list = GetConfigs (host w) (verifyTLS w) (token w) (project w)"
  shows "(name \<noteq> [] \<and> environment \<noteq> [] \<and>
          api_CreateConfig w (host w) (verifyTLS w) (token w) (project w) name environment
            (\<not> flag_no_defaults cmd) = Inl err \<longrightarrow>
            configsCreateCmd w (cmd\<lparr>flag_silent := silent\<rparr>) args =
              ([Api create, Reported (Unwrap err) [Message err]], Failed)) \<and>
         (name \<noteq> [] \<and> environment \<noteq> [] \<and>
          api_CreateConfig w (host w) (verifyTLS w) (token w) (project w) name environment
            (\<not> flag_no_defaults cmd) = Inr info \<longrightarrow>
            configsCreateCmd w (cmd\<lparr>flag_silent := silent\<rparr>) args =
              (Api create # (if silent then [] else [PrintConfigInfo info (JSON w)]), Returned)) \<and>
         (api_UpdateConfig w (host w) (verifyTLS w) (token w) (project w) config (flag_name cmd) =
            Inl err \<longrightarrow>
            configsUpdateCmd w (cmd\<lparr>flag_silent := silent\<rparr>) args =
              ([Api update, Reported (Unwrap err) [Message err]], Failed)) \<and>
         (api_UpdateConfig w (host w) (verifyTLS w) (token w) (project w) config (flag_name cmd) =
            Inr info \<longrightarrow>
            configsUpdateCmd w (cmd\<lparr>flag_silent := silent\<rparr>) args =
              (Api update # (if silent then [] else [PrintConfigInfo info (JSON w)]), Returned)) \<and>
         (api_RollbackConfigLog w (host w) (verifyTLS w) (token w) (project w)
            (Config_Value (LocalConfig w)) log = Inl err \<longrightarrow>
            configsLogsRollbackCmd w (cmd\<lparr>flag_silent := silent\<rparr>) args =
              ([Api rollback, Reported (Unwrap err) [Message err]], Failed)) \<and>
         (api_RollbackConfigLog w (host w) (verifyTLS w) (token w) (project w)
            (Config_Value (LocalConfig w)) log = Inr configLog \<longrightarrow>
            configsLogsRollbackCmd w (cmd\<lparr>flag_silent := silent\<rparr>) args =
              (Api rollback # (if silent then [] else [PrintLog configLog (JSON w)]), Returned)) \<and>
         ((flag_yes cmd \<or> ConfirmationPrompt w (''Delete config '' @ config) False) \<and>
          api_DeleteConfig w (host w) (verifyTLS w) (token w) (project w) config = Some err \<longrightarrow>
            configsDeleteCmd w (cmd\<lparr>flag_silent := silent\<rparr>) args =
              (asked @ [Api delete, Reported (Unwrap err) [Message err]], Failed)) \<and>
         ((flag_yes cmd \<or> ConfirmationPrompt w (''Delete config '' @ config) False) \<and>
          api_DeleteConfig w (host w) (verifyTLS w) (token w) (project w) config = None \<longrightarrow>
            configsDeleteCmd w (cmd\<lparr>flag_silent := True\<rparr>) args =
              (asked @ [Api delete], Returned)) \<and>
         ((flag_yes cmd \<or> ConfirmationPrompt w (''Delete config '' @ config) False) \<and>
          api_DeleteConfig w (host w) (verifyTLS w) (token w) (project w) config = None \<and>
          api_GetConfigs w (host w) (verifyTLS w) (token w) (project w) = Inl err \<longrightarrow>
            configsDeleteCmd w (cmd\<lparr>flag_silent := False\<rparr>) args =
              (asked @ [Api delete, Api list, Reported (Unwrap err) [Message err]], Failed)) \<and>
         ((flag_yes cmd \<or> ConfirmationPrompt w (''Delete config '' @ config) False) \<and>
          api_DeleteConfig w (host w) (verifyTLS w) (token w) (project w) config = None \<and>
          api_GetConfigs w (host w) (verifyTLS w) (token w) (project w) = Inr configs \<longrightarrow>
            configsDeleteCmd w (cmd\<lparr>flag_silent := False\<rparr>) args =
              (asked @ [Api delete, Api list, PrintConfigsInfo configs (JSON w)], Returned))"
  using assms
  by (auto simp: configsCreateCmd_def configsUpdateCmd_def configsDeleteCmd_def deleteAndList_def
      configsLogsRollbackCmd_def run_defs)

text \<open>
  \<open>create\<close>, \<open>logs rollback\<close> and \<open>delete\<close> with \<open>--silent\<close> where the API fails; \<open>create\<close> with
  and without \<open>--silent\<close>, and \<open>delete\<close> without it, where the API succeeds.
\<close>

theorem silent_and_api_errors_witness:
  "configsCreateCmd bad_world (dev_flags\<lparr>flag_silent := True\<rparr>) [''backend_dev''] =
     ([Api (CreateConfig ''https://api.doppler.com'' True ''token'' ''backend'' ''backend_dev''
              ''dev'' True),
       Reported ''connection refused'' [''Unable to reach the API'']], Failed) \<and>
   configsLogsRollbackCmd bad_world (dev_flags\<lparr>flag_silent := True\<rparr>) [''log1''] =
     ([Api (RollbackConfigLog ''https://api.doppler.com'' True ''token'' ''backend'' ''dev''
              ''log1''),
       Reported ''connection refused'' [''Unable to reach the API'']], Failed) \<and>
   configsCreateCmd good_world (dev_flags\<lparr>flag_silent := True\<rparr>) [''backend_dev''] =
     ([Api (CreateConfig ''https://api.doppler.com'' True ''token'' ''backend'' ''backend_dev''
              ''dev'' True)], Returned) \<and>
   configsCreateCmd good_world (dev_flags\<lparr>flag_silent := False\<rparr>) [''backend_dev''] =
     ([Api (CreateConfig ''https://api.doppler.com'' True ''token'' ''backend'' ''backend_dev''
              ''dev'' True), PrintConfigInfo example_info False], Returned) \<and>
   configsDeleteCmd bad_world (yes_flags\<lparr>flag_silent := True\<rparr>) [''dev''] =
     ([Api (DeleteConfig ''https://api.doppler.com'' True ''token'' ''backend'' ''dev''),
       Reported ''connection refused'' [''Unable to reach the API'']], Failed) \<and>
   configsDeleteCmd good_world (yes_flags\<lparr>flag_silent := False\<rparr>) [''dev''] =
     ([Api (DeleteConfig ''https://api.doppler.com'' True ''token'' ''backend'' ''dev''),
       Api (GetConfigs ''https://api.doppler.com'' True ''token'' ''backend''),
       PrintConfigsInfo [example_info] False], Returned)"
proof -
  have n: "''backend_dev'' = positional [''backend_dev''] (flag_name dev_flags)"
    and l: "''log1'' = positional [''log1''] (flag_log dev_flags)"
    by (simp_all add: positional_def)
  have e: "''dev'' = derive_environment ''backend_dev'' (flag_environment dev_flags)"
    by (simp add: derive_environment_def dev_flags_def no_flags_def)
  have d: "\<not> flag_no_defaults dev_flags" "flag_yes yes_flags"
    by (simp_all add: dev_flags_def yes_flags_def no_flags_def)
  have c: "''dev'' = positional [''dev''] (Config_Value (LocalConfig bad_world))"
    "''dev'' = positional [''dev''] (Config_Value (LocalConfig good_world))"
    by (simp_all add: positional_def)
  note t = silent_and_api_errors [OF _ _ _ _ refl refl refl refl refl refl]
  show ?thesis
    using t [OF n e refl refl, where w = bad_world and err = example_error and silent = True]
      t [OF refl refl refl l, where w = bad_world and err = example_error and silent = True]
      t [OF n e refl refl, where w = good_world and silent = True and info = example_info]
      t [OF n e refl refl, where w = good_world and silent = False and info = example_info]
      t [OF refl refl c(1) refl, where err = example_error and silent = True
           and cmd = yes_flags]
      t [OF refl refl c(2) refl, where configs = "[example_info]" and cmd = yes_flags] d
    by (simp add: good_world_args bad_world_args good_world_api bad_world_api
        example_error_text)
qed

text \<open>
  \<open>configs delete dev --yes\<close> where the delete call succeeds and the list call fails: without
  \<open>--silent\<close> the error is reported and the exit status is non-zero, with \<open>--silent\<close> nothing
  is reported and the exit status is 0.
\<close>

theorem delete_silent_counterexample:
  "configsDeleteCmd list_fails_world (yes_flags\<lparr>flag_silent := False\<rparr>) [''dev''] =
     ([Api (DeleteConfig ''https://api.doppler.com'' True ''token'' ''backend'' ''dev''),
       Api (GetConfigs ''https://api.doppler.com'' True ''token'' ''backend''),
       Reported ''connection refused'' [''Unable to reach the API'']], Failed) \<and>
   configsDeleteCmd list_fails_world (yes_flags\<lparr>flag_silent := True\<rparr>) [''dev''] =
     ([Api (DeleteConfig ''https://api.doppler.com'' True ''token'' ''backend'' ''dev'')],
      Returned)"
  by (simp add: configsDeleteCmd_def deleteAndList_def run_defs list_fails_world_reads
      positional_def yes_flags_def no_flags_def example_error_text)

subsection \<open>Listing audit logs\<close>

text \<open>
  What the body of \<open>logs\<close> does when the API call succeeds: it hands the entries as the API
  returned them, and the number computed by \<open>utils.GetIntFlag(cmd, "number", 16)\<close>, to
  \<open>utils.PrintLogs\<close>.
\<close>

lemma configsLogsCmd_effects:
  "api_GetConfigLogs w (host w) (verifyTLS w) (token w) (project w) (Config_Value (LocalConfig w)) =
     Inr logs \<Longrightarrow>
   configsLogsCmd w cmd args =
     ([Api (GetConfigLogs (host w) (verifyTLS w) (token w) (project w)
              (Config_Value (LocalConfig w))),
       PrintLogs logs (GetIntFlag w (flag_number cmd) 16) (JSON w)], Returned)"
  by (simp add: configsLogsCmd_def run_defs)

end
